theory Spec2Isabelle
  imports Complex_Main
begin

section \<open>Data model\<close>

text \<open>
  The interfaces of \<^verbatim>\<open>src/lib/openai.ts\<close> and the object literals of
  \<^verbatim>\<open>src/components/ScreenCapture.tsx\<close>. A JavaScript \<^verbatim>\<open>number\<close> that holds a price
  or a confidence is modelled by the exact decimal value it denotes (a rational); the
  rounding of IEEE doubles is not part of the model, so a decimal too small or too large
  for a double (one that \<^verbatim>\<open>parseFloat\<close> turns into 0 or Infinity) is outside it.
  Strings are lists of 8-bit characters, so the model covers ASCII text.
\<close>

type_synonym number = rat

datatype structure_type = Choch | Bos | Order_block | Liquidity | Poi | Fib_50

datatype direction = Bullish | Bearish | Neutral

record coordinates =
  coord_x :: number
  coord_y :: number
  coord_width :: number
  coord_height :: number

record MarketStructure =
  type :: structure_type
  direction :: direction
  priceLevel :: number
  confidence :: number
  coordinates :: coordinates

section \<open>String primitives of the extractor\<close>

text \<open>\<^verbatim>\<open>String.prototype.toLowerCase\<close> on ASCII text: the 26 capital letters are mapped,
  every other character is kept.\<close>

definition toLowerChar :: "char \<Rightarrow> char" where
  "toLowerChar c =
     (case map_of (zip ''ABCDEFGHIJKLMNOPQRSTUVWXYZ'' ''abcdefghijklmnopqrstuvwxyz'') c of
        Some l \<Rightarrow> l
      | None \<Rightarrow> c)"

definition toLowerCase :: "string \<Rightarrow> string" where
  "toLowerCase s = map toLowerChar s"

text \<open>\<^verbatim>\<open>hay.startsWith(needle)\<close> and \<^verbatim>\<open>hay.includes(needle)\<close>.\<close>

fun startsWith :: "string \<Rightarrow> string \<Rightarrow> bool" where
  "startsWith _ [] = True"
| "startsWith [] (_ # _) = False"
| "startsWith (h # hs) (n # ns) = (h = n \<and> startsWith hs ns)"

fun str_includes :: "string \<Rightarrow> string \<Rightarrow> bool" where
  "str_includes [] n = (n = [])"
| "str_includes (h # hs) n = (startsWith (h # hs) n \<or> str_includes hs n)"

text \<open>\<^verbatim>\<open>text.split('\n')\<close>: the pieces between line feeds; the empty string gives one
  empty piece.\<close>

fun split_nl :: "string \<Rightarrow> string list" where
  "split_nl [] = [[]]"
| "split_nl (c # cs) =
     (if c = CHR 0x0A then [] # split_nl cs
      else (case split_nl cs of l # ls \<Rightarrow> (c # l) # ls | [] \<Rightarrow> [[c]]))"

section \<open>extractPrice\<close>

text \<open>
  \<^verbatim>\<open>const matches = text.match(/\$?([0-9]+(?:[,.]?[0-9]+)*)/g);\<close>

  Only \<^verbatim>\<open>matches[0]\<close>, the leftmost match, is used. The match starts at the first
  position that holds a digit, or a dollar sign directly followed by a digit; from the
  first digit on it takes digits, and a comma or a dot only when a digit follows it
  (\<open>numberTail\<close>).
\<close>

definition isDigit :: "char \<Rightarrow> bool" where
  "isDigit c = (c \<in> set ''0123456789'')"

definition digitValue :: "char \<Rightarrow> nat" where
  "digitValue c =
     (case map_of (zip ''0123456789'' [0, 1, 2, 3, 4, 5, 6, 7, 8, 9]) c of
        Some d \<Rightarrow> d
      | None \<Rightarrow> 0)"

fun numberTail :: "string \<Rightarrow> string" where
  "numberTail [] = []"
| "numberTail (c # cs) =
     (if isDigit c then c # numberTail cs
      else if (c = CHR '','' \<or> c = CHR ''.'') \<and> (case cs of d # _ \<Rightarrow> isDigit d | [] \<Rightarrow> False)
        then c # numberTail cs
      else [])"

fun firstMatch :: "string \<Rightarrow> string option" where
  "firstMatch [] = None"
| "firstMatch (c # cs) =
     (if c = CHR ''$'' \<and> (case cs of d # _ \<Rightarrow> isDigit d | [] \<Rightarrow> False)
        then Some (c # numberTail cs)
      else if isDigit c then Some (numberTail (c # cs))
      else firstMatch cs)"

definition digitsToNat :: "string \<Rightarrow> nat" where
  "digitsToNat ds = foldl (\<lambda>n c. 10 * n + digitValue c) 0 ds"

text \<open>
  \<^verbatim>\<open>parseFloat\<close> on the strings \<open>extractPrice\<close> hands it (digits and dots only): the
  longest prefix of the form digits, or digits, a dot and digits. \<open>None\<close> is NaN.
\<close>

definition parseFloat :: "string \<Rightarrow> number option" where
  "parseFloat s =
     (let ip = takeWhile isDigit s;
          rest = dropWhile isDigit s;
          fp = (case rest of c # r \<Rightarrow> if c = CHR ''.'' then takeWhile isDigit r else [] | [] \<Rightarrow> [])
      in if ip = [] \<and> fp = [] then None
         else Some (of_nat (digitsToNat ip) + of_nat (digitsToNat fp) / 10 ^ length fp))"

text \<open>
  \<^verbatim>\<open>
  const extractPrice = (text: string): number | null => {
    const matches = text.match(...);
    if (matches && matches.length > 0) {
      const price = parseFloat(matches[0].replace(/[$,]/g, ''));
      return isNaN(price) ? null : price;
    }
    return null;
  };
  \<close>
\<close>

definition extractPrice :: "string \<Rightarrow> number option" where
  "extractPrice text =
     (case firstMatch text of
        Some m \<Rightarrow> parseFloat (filter (\<lambda>c. c \<noteq> CHR ''$'' \<and> c \<noteq> CHR '','') m)
      | None \<Rightarrow> None)"

section \<open>extractStructuresFromAnalysis\<close>

definition zeroRect :: coordinates where
  "zeroRect = \<lparr>coord_x = 0, coord_y = 0, coord_width = 0, coord_height = 0\<rparr>"

text \<open>
  The body of \<^verbatim>\<open>for (const line of lines)\<close>: six \<^verbatim>\<open>if\<close> statements in a row, each
  calling \<^verbatim>\<open>extractPrice(line)\<close> and pushing one object when \<^verbatim>\<open>if (price)\<close> passes.
  In JavaScript \<^verbatim>\<open>if (price)\<close> fails for \<^verbatim>\<open>null\<close> and for the number 0.
  The function takes the array \<^verbatim>\<open>structures\<close> and returns it after the pushes.
\<close>

definition processLine :: "MarketStructure list \<Rightarrow> string \<Rightarrow> MarketStructure list" where
  "processLine structures line =
     (let s1 =
        (if str_includes line ''choch'' \<or> str_includes line ''change of character'' then
           (case extractPrice line of
              None \<Rightarrow> structures
            | Some price \<Rightarrow>
                if price = 0 then structures
                else structures @
                  [\<lparr>type = Choch,
                    direction = (if str_includes line ''bullish'' then Bullish
                                 else if str_includes line ''bearish'' then Bearish else Neutral),
                    priceLevel = price, confidence = 8 / 10, coordinates = zeroRect\<rparr>])
         else structures);
      s2 =
        (if str_includes line ''bos'' \<or> str_includes line ''break of structure'' then
           (case extractPrice line of
              None \<Rightarrow> s1
            | Some price \<Rightarrow>
                if price = 0 then s1
                else s1 @
                  [\<lparr>type = Bos,
                    direction = (if str_includes line ''bullish'' then Bullish
                                 else if str_includes line ''bearish'' then Bearish else Neutral),
                    priceLevel = price, confidence = 85 / 100, coordinates = zeroRect\<rparr>])
         else s1);
      s3 =
        (if str_includes line ''order block'' then
           (case extractPrice line of
              None \<Rightarrow> s2
            | Some price \<Rightarrow>
                if price = 0 then s2
                else s2 @
                  [\<lparr>type = Order_block,
                    direction =
                      (if str_includes line ''bullish'' \<or> str_includes line ''demand'' then Bullish
                       else if str_includes line ''bearish'' \<or> str_includes line ''supply''
                         then Bearish
                       else Neutral),
                    priceLevel = price, confidence = 75 / 100, coordinates = zeroRect\<rparr>])
         else s2);
      s4 =
        (if str_includes line ''liquidity'' \<or> str_includes line ''pool'' then
           (case extractPrice line of
              None \<Rightarrow> s3
            | Some price \<Rightarrow>
                if price = 0 then s3
                else s3 @
                  [\<lparr>type = Liquidity,
                    direction = (if str_includes line ''above'' then Bullish
                                 else if str_includes line ''below'' then Bearish else Neutral),
                    priceLevel = price, confidence = 7 / 10, coordinates = zeroRect\<rparr>])
         else s3);
      s5 =
        (if str_includes line ''poi'' \<or> str_includes line ''point of interest'' then
           (case extractPrice line of
              None \<Rightarrow> s4
            | Some price \<Rightarrow>
                if price = 0 then s4
                else s4 @
                  [\<lparr>type = Poi, direction = Neutral,
                    priceLevel = price, confidence = 8 / 10, coordinates = zeroRect\<rparr>])
         else s4);
      s6 =
        (if str_includes line ''fib'' \<and> (str_includes line ''50'' \<or> str_includes line ''0.5'') then
           (case extractPrice line of
              None \<Rightarrow> s5
            | Some price \<Rightarrow>
                if price = 0 then s5
                else s5 @
                  [\<lparr>type = Fib_50, direction = Neutral,
                    priceLevel = price, confidence = 75 / 100, coordinates = zeroRect\<rparr>])
         else s5)
      in s6)"

text \<open>
  \<^verbatim>\<open>
  const extractStructuresFromAnalysis = (analysisText: string, timeframe: string) => {
    const structures = [];
    const lines = analysisText.toLowerCase().split('\n');
    for (const line of lines) { ... }
    return structures;
  };
  \<close>
  The parameter \<^verbatim>\<open>timeframe\<close> is not read by the body.
\<close>

definition extractStructuresFromAnalysis :: "string \<Rightarrow> string \<Rightarrow> MarketStructure list" where
  "extractStructuresFromAnalysis analysisText timeframe =
     foldl processLine [] (split_nl (toLowerCase analysisText))"

text \<open>What one line contributes: the pushes of the loop body on an empty array.\<close>

definition lineStructures :: "string \<Rightarrow> MarketStructure list" where
  "lineStructures line = processLine [] line"

section \<open>The rule table of the specification\<close>

text \<open>
  The second reading of the extractor, written from the specification's rule list
  (section 4.1): which category a line matches, the confidence constant of a category,
  and the direction a category derives from the line. The theorems below compare the
  loop body of the source with this table.
\<close>

fun matchesRule :: "structure_type \<Rightarrow> string \<Rightarrow> bool" where
  "matchesRule Choch line = (str_includes line ''choch'' \<or> str_includes line ''change of character'')"
| "matchesRule Bos line = (str_includes line ''bos'' \<or> str_includes line ''break of structure'')"
| "matchesRule Order_block line = str_includes line ''order block''"
| "matchesRule Liquidity line = (str_includes line ''liquidity'' \<or> str_includes line ''pool'')"
| "matchesRule Poi line = (str_includes line ''poi'' \<or> str_includes line ''point of interest'')"
| "matchesRule Fib_50 line =
     (str_includes line ''fib'' \<and> (str_includes line ''50'' \<or> str_includes line ''0.5''))"

definition ruleOrder :: "structure_type list" where
  "ruleOrder = [Choch, Bos, Order_block, Liquidity, Poi, Fib_50]"

definition ruleConfidence :: "structure_type \<Rightarrow> number" where
  "ruleConfidence k = (case k of Choch \<Rightarrow> 8 / 10 | Bos \<Rightarrow> 85 / 100 | Order_block \<Rightarrow> 75 / 100
      | Liquidity \<Rightarrow> 7 / 10 | Poi \<Rightarrow> 8 / 10 | Fib_50 \<Rightarrow> 75 / 100)"

definition matchesAnyRule :: "string \<Rightarrow> bool" where
  "matchesAnyRule line = list_ex (\<lambda>k. matchesRule k line) ruleOrder"

definition noRecognizedKeyword :: "string \<Rightarrow> bool" where
  "noRecognizedKeyword analysisText =
     list_all (\<lambda>line. \<not> matchesAnyRule line) (split_nl (toLowerCase analysisText))"

definition uniformDirection :: "string \<Rightarrow> direction" where
  "uniformDirection line =
     (if str_includes line ''bullish'' \<or> str_includes line ''demand'' \<or> str_includes line ''above''
        then Bullish
      else if str_includes line ''bearish'' \<or> str_includes line ''supply'' \<or> str_includes line ''below''
        then Bearish
      else Neutral)"

fun categoryDirection :: "structure_type \<Rightarrow> string \<Rightarrow> direction" where
  "categoryDirection Choch line =
     (if str_includes line ''bullish'' then Bullish
      else if str_includes line ''bearish'' then Bearish else Neutral)"
| "categoryDirection Bos line =
     (if str_includes line ''bullish'' then Bullish
      else if str_includes line ''bearish'' then Bearish else Neutral)"
| "categoryDirection Order_block line =
     (if str_includes line ''bullish'' \<or> str_includes line ''demand'' then Bullish
      else if str_includes line ''bearish'' \<or> str_includes line ''supply'' then Bearish
      else Neutral)"
| "categoryDirection Liquidity line =
     (if str_includes line ''above'' then Bullish
      else if str_includes line ''below'' then Bearish else Neutral)"
| "categoryDirection Poi line = Neutral"
| "categoryDirection Fib_50 line = Neutral"

section \<open>The analyzer (src/lib/openai.ts)\<close>

record ChartAnalysis =
  timeframe :: string
  structures :: "MarketStructure list"
  trendDirection :: direction
  keyLevels :: "number list"
  analysis :: string

datatype signal_type = Buy | Sell

record reasoning =
  reasoning_tf4h :: string
  reasoning_tf15m :: string
  reasoning_tf3m :: string
  reasoning_tf1m :: string

text \<open>Every field typed \<^verbatim>\<open>T | null\<close> is an option. The field \<^verbatim>\<open>confidence\<close> of
  \<^verbatim>\<open>TradingSignal\<close> is named \<open>signal_confidence\<close> here, since a \<open>MarketStructure\<close>
  has a field \<open>confidence\<close> too.\<close>

record TradingSignal =
  signalType :: "signal_type option"
  entryPrice :: "number option"
  stopLoss :: "number option"
  takeProfit :: "number option"
  riskRewardRatio :: "number option"
  signal_confidence :: number
  reasoning :: reasoning

text \<open>
  What \<^verbatim>\<open>await fetch(...)\<close> and \<^verbatim>\<open>await response.json()\<close> can give the two methods:
  the request is rejected; the status is not OK (with its status text); the body is not
  JSON; or the body is read, and \<open>Body cs\<close> lists the \<^verbatim>\<open>message.content\<close> of its
  \<^verbatim>\<open>choices\<close>. The reply is an input of the model: the theorems hold for every reply
  the service can give to the request.
\<close>

datatype api_response = FetchRejected | Status string | Unparseable | Body "string list"

text \<open>The exceptions the two methods log and rethrow: the rejection of \<^verbatim>\<open>fetch\<close>,
  \<^verbatim>\<open>new Error(`OpenAI API error: ${response.statusText}`)\<close>, the syntax error of
  \<^verbatim>\<open>response.json()\<close>, and the type error of \<^verbatim>\<open>data.choices[0].message\<close> on an empty
  array.\<close>

datatype api_error = FetchError | ApiError string | SyntaxError | TypeError

text \<open>
  \<^verbatim>\<open>
  private parseAnalysis(content: string, timeframe: string): ChartAnalysis {
    return { timeframe: timeframe as ..., structures: [], trendDirection: 'neutral',
             keyLevels: [], analysis: content };
  }
  \<close>
\<close>

definition parseAnalysis :: "string \<Rightarrow> string \<Rightarrow> ChartAnalysis" where
  "parseAnalysis content tf =
     \<lparr>timeframe = tf, structures = [], trendDirection = Neutral, keyLevels = [],
      analysis = content\<rparr>"

text \<open>
  \<^verbatim>\<open>
  private parseSignal(content: string): TradingSignal {
    return { signalType: null, entryPrice: null, stopLoss: null, takeProfit: null,
             riskRewardRatio: null, confidence: 0,
             reasoning: { tf4h: '', tf15m: '', tf3m: '', tf1m: '' } };
  }
  \<close>
\<close>

definition parseSignal :: "string \<Rightarrow> TradingSignal" where
  "parseSignal content =
     \<lparr>signalType = None, entryPrice = None, stopLoss = None, takeProfit = None,
      riskRewardRatio = None, signal_confidence = 0,
      reasoning = \<lparr>reasoning_tf4h = [], reasoning_tf15m = [], reasoning_tf3m = [],
                   reasoning_tf1m = []\<rparr>\<rparr>"

text \<open>\<^verbatim>\<open>analyzeChart\<close>: the request, then
  \<^verbatim>\<open>this.parseAnalysis(data.choices[0].message.content, timeframe)\<close>.\<close>

definition analyzeChart :: "string \<Rightarrow> string \<Rightarrow> api_response \<Rightarrow> api_error + ChartAnalysis" where
  "analyzeChart imageBase64 tf response =
     (case response of
        FetchRejected \<Rightarrow> Inl FetchError
      | Status statusText \<Rightarrow> Inl (ApiError statusText)
      | Unparseable \<Rightarrow> Inl SyntaxError
      | Body [] \<Rightarrow> Inl TypeError
      | Body (content # _) \<Rightarrow> Inr (parseAnalysis content tf))"

text \<open>\<^verbatim>\<open>generateSignal\<close>: the four analyses and the training rules go into the
  request text only; the result is \<^verbatim>\<open>this.parseSignal(data.choices[0].message.content)\<close>.
  The method takes no threshold and no risk/reward setting.\<close>

definition generateSignal ::
  "ChartAnalysis \<Rightarrow> ChartAnalysis \<Rightarrow> ChartAnalysis \<Rightarrow> ChartAnalysis \<Rightarrow> string list
     \<Rightarrow> api_response \<Rightarrow> api_error + TradingSignal" where
  "generateSignal tf4h tf15m tf3m tf1m trainingRules response =
     (case response of
        FetchRejected \<Rightarrow> Inl FetchError
      | Status statusText \<Rightarrow> Inl (ApiError statusText)
      | Unparseable \<Rightarrow> Inl SyntaxError
      | Body [] \<Rightarrow> Inl TypeError
      | Body (content # _) \<Rightarrow> Inr (parseSignal content))"


section \<open>The alert system (src/components/AlertSystem.tsx)\<close>

text \<open>The fields of a \<^verbatim>\<open>trading_signals\<close> row that the component reads
  (\<^verbatim>\<open>payload.new\<close>).\<close>

record signal_row =
  signal_id :: string
  signal_type :: signal_type
  entry_price :: number
  confidence_score :: number
  alert_sent :: bool

text \<open>The toast; its display text \<^verbatim>\<open>message\<close> is not modelled.\<close>

record Toast =
  toast_id :: string
  toast_type :: signal_type
  toast_price :: number
  toast_confidence :: number

text \<open>
  The state the alerts act on. Of the component: the toasts on screen and the two
  switches, \<^verbatim>\<open>useState(true)\<close> each. Outside it: the number of sounds played, the
  tags of the system notifications issued, the update requests sent to the store and not
  yet applied, and the column \<^verbatim>\<open>alert_sent\<close> of the table, by row id. The timer that
  removes a toast after ten seconds is not modelled.
\<close>

record alert_state =
  toasts :: "Toast list"
  soundEnabled :: bool
  notificationsEnabled :: bool
  soundsPlayed :: nat
  systemNotifications :: "string list"
  updateRequests :: "string list"
  alert_sent_column :: "string \<Rightarrow> bool"

text \<open>
  The functions of the component are created anew in every render and close over the
  values the two switches have in that render. The subscription is made in
  \<^verbatim>\<open>useEffect(() => { ... }, [user])\<close>, so its handler keeps the \<^verbatim>\<open>showAlert\<close> of the
  render in which the effect ran; a later change of a switch does not reach it.
\<close>

record render_closure =
  closure_soundEnabled :: bool
  closure_notificationsEnabled :: bool

definition renderOf :: "alert_state \<Rightarrow> render_closure" where
  "renderOf st =
     \<lparr>closure_soundEnabled = soundEnabled st,
      closure_notificationsEnabled = notificationsEnabled st\<rparr>"

text \<open>\<^verbatim>\<open>const toggleSound = () => { setSoundEnabled(!soundEnabled); };\<close> and
  \<^verbatim>\<open>const toggleNotifications = () => { setNotificationsEnabled(!notificationsEnabled); };\<close>\<close>

definition toggleSound :: "render_closure \<Rightarrow> alert_state \<Rightarrow> alert_state" where
  "toggleSound c st = st\<lparr>soundEnabled := \<not> closure_soundEnabled c\<rparr>"

definition toggleNotifications :: "render_closure \<Rightarrow> alert_state \<Rightarrow> alert_state" where
  "toggleNotifications c st = st\<lparr>notificationsEnabled := \<not> closure_notificationsEnabled c\<rparr>"

text \<open>\<^verbatim>\<open>const playAlertSound = () => { if (!soundEnabled) return; ... oscillator.start(...); ... };\<close>\<close>

definition playAlertSound :: "render_closure \<Rightarrow> alert_state \<Rightarrow> alert_state" where
  "playAlertSound c st =
     (if \<not> closure_soundEnabled c then st else st\<lparr>soundsPlayed := soundsPlayed st + 1\<rparr>)"

text \<open>
  \<^verbatim>\<open>
  const showAlert = (signal: any) => {
    const toast: Toast = { id: signal.id, type: signal.signal_type, ... };
    if (notificationsEnabled) { setToasts((prev) => [...prev, toast]); ... }
    if (soundEnabled) { playAlertSound(); }
    if ('Notification' in window && Notification.permission === 'granted') {
      new Notification('Trading Signal Alert', { ..., tag: toast.id, ... });
    }
    supabase.from('trading_signals').update({ alert_sent: true }).eq('id', signal.id).then();
  };
  \<close>
  The function returns nothing. The argument \<open>granted\<close> is the value of the permission
  test at the call. The update is sent and not awaited.
\<close>

definition showAlert ::
  "render_closure \<Rightarrow> bool \<Rightarrow> signal_row \<Rightarrow> alert_state \<Rightarrow> alert_state" where
  "showAlert c granted signal st =
     (let toast = \<lparr>toast_id = signal_id signal, toast_type = signal_type signal,
                   toast_price = entry_price signal,
                   toast_confidence = confidence_score signal\<rparr>;
          st1 = (if closure_notificationsEnabled c then st\<lparr>toasts := toasts st @ [toast]\<rparr>
                 else st);
          st2 = (if closure_soundEnabled c then playAlertSound c st1 else st1);
          st3 = (if granted
                 then st2\<lparr>systemNotifications := systemNotifications st2 @ [toast_id toast]\<rparr>
                 else st2)
      in st3\<lparr>updateRequests := updateRequests st3 @ [signal_id signal]\<rparr>)"

text \<open>The handler of the subscription:
  \<^verbatim>\<open>(payload) => { const signal = payload.new; if (!signal.alert_sent) { showAlert(signal); } }\<close>.
  It reads the flag of the delivered record, not the table.\<close>

definition onSignalInsert ::
  "render_closure \<Rightarrow> bool \<Rightarrow> signal_row \<Rightarrow> alert_state \<Rightarrow> alert_state" where
  "onSignalInsert c granted signal st =
     (if \<not> alert_sent signal then showAlert c granted signal st else st)"

text \<open>The store applies the update requests that reached it:
  \<^verbatim>\<open>update({ alert_sent: true }).eq('id', id)\<close> sets the flag of that row, whatever it was.
  A request that fails on its way is not modelled.\<close>

definition applyUpdates :: "alert_state \<Rightarrow> alert_state" where
  "applyUpdates st =
     st\<lparr>alert_sent_column := (\<lambda>i. if i \<in> set (updateRequests st) then True
                                   else alert_sent_column st i),
        updateRequests := []\<rparr>"

text \<open>The component when it mounts, with nothing alerted yet.\<close>

definition initialAlerts :: alert_state where
  "initialAlerts = \<lparr>toasts = [], soundEnabled = True, notificationsEnabled = True,
      soundsPlayed = 0, systemNotifications = [], updateRequests = [],
      alert_sent_column = (\<lambda>i. False)\<rparr>"

section \<open>The timeframe aggregator of the specification\<close>

text \<open>
  Modelled from the spec: the Timeframe Analysis Aggregator (section 4.2) is not in the
  source files. No file defines \<^verbatim>\<open>isComplete\<close>, \<^verbatim>\<open>toBundle\<close> or
  \<^verbatim>\<open>IncompleteBundle\<close>; the source has only the consumer of a bundle,
  \<^verbatim>\<open>generateSignal\<close>, whose four analyses are required parameters. The definitions of
  this section follow the specification's words: one analysis per required timeframe is
  accumulated, overwriting is allowed, and \<^verbatim>\<open>toBundle()\<close> fails with
  \<^verbatim>\<open>IncompleteBundle\<close> if any of the four is missing.
\<close>

datatype required_timeframe = TF_4h | TF_15m | TF_3m | TF_1m

datatype aggregation_error = IncompleteBundle

record TimeframeBundle =
  bundle_4h :: ChartAnalysis
  bundle_15m :: ChartAnalysis
  bundle_3m :: ChartAnalysis
  bundle_1m :: ChartAnalysis

type_synonym aggregation = "required_timeframe \<Rightarrow> ChartAnalysis option"

text \<open>Modelled from the spec: the aggregation of a new capture cycle holds no analysis.\<close>

definition emptyAggregation :: aggregation where
  "emptyAggregation = (\<lambda>tf. None)"

text \<open>Modelled from the spec: accumulating the analysis of one timeframe; an earlier
  analysis of the same timeframe is overwritten.\<close>

definition putAnalysis :: "aggregation \<Rightarrow> required_timeframe \<Rightarrow> ChartAnalysis \<Rightarrow> aggregation" where
  "putAnalysis agg tf a = agg(tf \<mapsto> a)"

text \<open>Modelled from the spec: \<^verbatim>\<open>isComplete()\<close>, all four timeframes are present.\<close>

definition isComplete :: "aggregation \<Rightarrow> bool" where
  "isComplete agg = list_all (\<lambda>tf. agg tf \<noteq> None) [TF_4h, TF_15m, TF_3m, TF_1m]"

text \<open>Modelled from the spec: \<^verbatim>\<open>toBundle()\<close>, the aligned bundle, or
  \<^verbatim>\<open>IncompleteBundle\<close> if any of the four timeframes is missing.\<close>

definition toBundle :: "aggregation \<Rightarrow> aggregation_error + TimeframeBundle" where
  "toBundle agg =
     (case (agg TF_4h, agg TF_15m, agg TF_3m, agg TF_1m) of
        (Some a, Some b, Some c, Some d) \<Rightarrow>
          Inr \<lparr>bundle_4h = a, bundle_15m = b, bundle_3m = c, bundle_1m = d\<rparr>
      | _ \<Rightarrow> Inl IncompleteBundle)"

datatype cycle_result = NotEvaluated aggregation_error | Evaluated "api_error + TradingSignal"

text \<open>Modelled from the spec: the control flow of section 2, the aggregator assembles
  the bundle and only then the decision engine (\<open>generateSignal\<close> of the source)
  evaluates it.\<close>

definition evaluateCycle :: "aggregation \<Rightarrow> string list \<Rightarrow> api_response \<Rightarrow> cycle_result" where
  "evaluateCycle agg trainingRules response =
     (case toBundle agg of
        Inl e \<Rightarrow> NotEvaluated e
      | Inr b \<Rightarrow> Evaluated (generateSignal (bundle_4h b) (bundle_15m b) (bundle_3m b)
                    (bundle_1m b) trainingRules response))"

section \<open>The loop body, block by block\<close>

text \<open>\<open>emit c s\<close> is the effect of one guarded push: the singleton when the guard
  holds, nothing otherwise.\<close>

definition emit :: "bool \<Rightarrow> MarketStructure \<Rightarrow> MarketStructure list" where
  "emit c s = (if c then [s] else [])"

definition pricedStructures :: "string \<Rightarrow> number \<Rightarrow> MarketStructure list" where
  "pricedStructures line price =
     emit (str_includes line ''choch'' \<or> str_includes line ''change of character'')
       \<lparr>type = Choch,
        direction = (if str_includes line ''bullish'' then Bullish
                     else if str_includes line ''bearish'' then Bearish else Neutral),
        priceLevel = price, confidence = 8 / 10, coordinates = zeroRect\<rparr> @
     emit (str_includes line ''bos'' \<or> str_includes line ''break of structure'')
       \<lparr>type = Bos,
        direction = (if str_includes line ''bullish'' then Bullish
                     else if str_includes line ''bearish'' then Bearish else Neutral),
        priceLevel = price, confidence = 85 / 100, coordinates = zeroRect\<rparr> @
     emit (str_includes line ''order block'')
       \<lparr>type = Order_block,
        direction = (if str_includes line ''bullish'' \<or> str_includes line ''demand'' then Bullish
                     else if str_includes line ''bearish'' \<or> str_includes line ''supply''
                       then Bearish
                     else Neutral),
        priceLevel = price, confidence = 75 / 100, coordinates = zeroRect\<rparr> @
     emit (str_includes line ''liquidity'' \<or> str_includes line ''pool'')
       \<lparr>type = Liquidity,
        direction = (if str_includes line ''above'' then Bullish
                     else if str_includes line ''below'' then Bearish else Neutral),
        priceLevel = price, confidence = 7 / 10, coordinates = zeroRect\<rparr> @
     emit (str_includes line ''poi'' \<or> str_includes line ''point of interest'')
       \<lparr>type = Poi, direction = Neutral,
        priceLevel = price, confidence = 8 / 10, coordinates = zeroRect\<rparr> @
     emit (str_includes line ''fib'' \<and> (str_includes line ''50'' \<or> str_includes line ''0.5''))
       \<lparr>type = Fib_50, direction = Neutral,
        priceLevel = price, confidence = 75 / 100, coordinates = zeroRect\<rparr>"

lemma processLine_None:
  "extractPrice line = None \<Longrightarrow> processLine acc line = acc"
  by (simp add: processLine_def)

lemma processLine_zero:
  "extractPrice line = Some 0 \<Longrightarrow> processLine acc line = acc"
  by (simp add: processLine_def)

lemma push_emit: "(if c then s @ [x] else s) = s @ emit c x"
  by (simp add: emit_def)

lemma processLine_priced:
  "extractPrice line = Some p \<Longrightarrow> p \<noteq> 0 \<Longrightarrow>
   processLine acc line = acc @ pricedStructures line p"
  by (simp add: processLine_def pricedStructures_def push_emit cong: if_cong)

lemma processLine_append:
  "processLine acc line = acc @ lineStructures line"
proof (cases "extractPrice line")
  case None
  then show ?thesis by (simp add: lineStructures_def processLine_None)
next
  case (Some p)
  show ?thesis
  proof (cases "p = 0")
    case True
    with Some show ?thesis by (simp add: lineStructures_def processLine_zero)
  next
    case False
    with Some show ?thesis by (simp add: lineStructures_def processLine_priced)
  qed
qed

lemma foldl_processLine:
  "foldl processLine acc ls = acc @ concat (map lineStructures ls)"
proof (induction ls arbitrary: acc)
  case Nil
  show ?case by simp
next
  case (Cons l ls)
  have "foldl processLine acc (l # ls) = foldl processLine (processLine acc l) ls"
    by simp
  also have "\<dots> = processLine acc l @ concat (map lineStructures ls)"
    by (rule Cons.IH)
  also have "\<dots> = acc @ concat (map lineStructures (l # ls))"
    by (simp add: processLine_append [of acc l])
  finally show ?case .
qed

lemma extract_concat:
  "extractStructuresFromAnalysis analysisText tf =
   concat (map lineStructures (split_nl (toLowerCase analysisText)))"
  by (simp add: extractStructuresFromAnalysis_def foldl_processLine)

lemma lineStructures_priced:
  "extractPrice line = Some p \<Longrightarrow> p \<noteq> 0 \<Longrightarrow> lineStructures line = pricedStructures line p"
  by (simp add: lineStructures_def processLine_priced)

lemma map_filter_Cons_emit:
  "map f (filter P (x # xs)) = emit (P x) (f x) @ map f (filter P xs)"
  by (simp add: emit_def)

lemma pricedStructures_table:
  "pricedStructures line p =
     map (\<lambda>k. \<lparr>type = k, direction = categoryDirection k line, priceLevel = p,
               confidence = ruleConfidence k, coordinates = zeroRect\<rparr>)
       (filter (\<lambda>k. matchesRule k line) ruleOrder)"
  by (simp only: pricedStructures_def ruleOrder_def map_filter_Cons_emit filter.simps(1)
      list.map(1) append_Nil2 matchesRule.simps categoryDirection.simps ruleConfidence_def
      structure_type.case)

lemma lineStructures_cases:
  "lineStructures line =
     (case extractPrice line of
        None \<Rightarrow> []
      | Some p \<Rightarrow> if p = 0 then [] else pricedStructures line p)"
  by (simp add: lineStructures_def processLine_None processLine_zero processLine_priced
      split: option.split)

lemma unmatched_line:
  "\<not> matchesAnyRule line \<Longrightarrow> lineStructures line = []"
  by (simp add: lineStructures_cases pricedStructures_table matchesAnyRule_def list_ex_iff
      filter_empty_conv split: option.split)

lemma lineStructures_length: "length (lineStructures line) \<le> 6"
proof -
  have "length (filter (\<lambda>k. matchesRule k line) ruleOrder) \<le> length ruleOrder"
    by (rule length_filter_le)
  then show ?thesis
    by (simp add: lineStructures_cases pricedStructures_table ruleOrder_def split: option.split)
qed

lemma priced_direction:
  "s \<in> set (pricedStructures line p) \<Longrightarrow> direction s = categoryDirection (type s) line"
  unfolding pricedStructures_table by auto

lemma priced_by_type:
  "filter (\<lambda>s. type s = k) (pricedStructures line p) =
     (if matchesRule k line
      then [\<lparr>type = k, direction = categoryDirection k line, priceLevel = p,
               confidence = ruleConfidence k, coordinates = zeroRect\<rparr>]
      else [])"
proof -
  have "filter (\<lambda>s. type s = k) (map f ks) = map f (filter (\<lambda>k'. k' = k) ks)"
    if "\<And>k'. type (f k') = k'" for f :: "structure_type \<Rightarrow> MarketStructure" and ks
    using that by (induction ks) simp_all
  then have "filter (\<lambda>s. type s = k) (pricedStructures line p) =
     map (\<lambda>k. \<lparr>type = k, direction = categoryDirection k line, priceLevel = p,
               confidence = ruleConfidence k, coordinates = zeroRect\<rparr>)
       (filter (\<lambda>k'. k' = k) (filter (\<lambda>k. matchesRule k line) ruleOrder))"
    unfolding pricedStructures_table by simp
  also have "filter (\<lambda>k'. k' = k) (filter (\<lambda>k. matchesRule k line) ruleOrder) =
     filter (\<lambda>k. matchesRule k line) (filter (\<lambda>k'. k' = k) ruleOrder)"
    by (simp add: conj_commute)
  also have "filter (\<lambda>k'. k' = k) ruleOrder = [k]"
    by (cases k) (simp_all add: ruleOrder_def)
  finally show ?thesis by simp
qed

lemma one_per_category:
  "length (filter (\<lambda>s. type s = k) (lineStructures line)) \<le> 1"
proof (cases "extractPrice line")
  case None
  then show ?thesis by (simp add: lineStructures_cases)
next
  case (Some p)
  have "length (filter (\<lambda>s. type s = k) (pricedStructures line p)) \<le> 1"
    by (simp add: priced_by_type)
  with Some show ?thesis by (simp add: lineStructures_cases)
qed

lemma one_for_each_matched:
  assumes "extractPrice line = Some p" and "p \<noteq> 0"
  shows "map type (lineStructures line) = filter (\<lambda>k. matchesRule k line) ruleOrder"
proof -
  have "map type (pricedStructures line p) = filter (\<lambda>k. matchesRule k line) ruleOrder"
    unfolding pricedStructures_table by (simp add: comp_def)
  with assms show ?thesis by (simp add: lineStructures_cases)
qed

text \<open>Lower-casing commutes with the search for a keyword and with the split into
  lines.\<close>

lemma startsWith_map: "startsWith h n \<Longrightarrow> startsWith (map f h) (map f n)"
  by (induction h n rule: startsWith.induct) simp_all

lemma str_includes_map: "str_includes h n \<Longrightarrow> str_includes (map f h) (map f n)"
proof (induction h)
  case Nil
  then show ?case by simp
next
  case (Cons c cs)
  from Cons.prems have "startsWith (c # cs) n \<or> str_includes cs n"
    by simp
  then show ?case
  proof
    assume "startsWith (c # cs) n"
    then have "startsWith (map f (c # cs)) (map f n)"
      by (rule startsWith_map)
    then show ?thesis by simp
  next
    assume "str_includes cs n"
    then have "str_includes (map f cs) (map f n)"
      by (rule Cons.IH)
    then show ?thesis by simp
  qed
qed

lemma toLowerChar_newline: "toLowerChar c = CHR 0x0A \<longleftrightarrow> c = CHR 0x0A"
  by (simp add: toLowerChar_def)

lemma split_nl_nonempty: "split_nl s \<noteq> []"
  by (induction s) (simp_all split: list.split)

lemma split_nl_toLowerCase: "split_nl (toLowerCase s) = map toLowerCase (split_nl s)"
proof (induction s)
  case Nil
  show ?case by (simp add: toLowerCase_def)
next
  case (Cons c cs)
  then have ih: "split_nl (map toLowerChar cs) = map (map toLowerChar) (split_nl cs)"
    by (simp add: toLowerCase_def)
  show ?case
  proof (cases "c = CHR 0x0A")
    case True
    then show ?thesis using ih
      by (simp add: toLowerCase_def toLowerChar_newline del: map_map)
  next
    case False
    obtain l ls where s: "split_nl cs = l # ls"
      using split_nl_nonempty [of cs] by (cases "split_nl cs") auto
    from False have "toLowerChar c \<noteq> CHR 0x0A"
      by (simp add: toLowerChar_newline)
    with False s ih show ?thesis
      unfolding toLowerCase_def by simp
  qed
qed

lemma upper_BOS: "str_includes rawLine ''BOS'' \<Longrightarrow> str_includes (toLowerCase rawLine) ''bos''"
proof -
  assume "str_includes rawLine ''BOS''"
  then have "str_includes (map toLowerChar rawLine) (map toLowerChar ''BOS'')"
    by (rule str_includes_map)
  moreover have "map toLowerChar ''BOS'' = ''bos''"
    by (simp add: toLowerChar_def)
  ultimately show ?thesis by (simp add: toLowerCase_def)
qed

lemma lowered_line:
  "rawLine \<in> set (split_nl analysisText) \<Longrightarrow>
   toLowerCase rawLine \<in> set (split_nl (toLowerCase analysisText))"
  by (simp add: split_nl_toLowerCase)

text \<open>Facts that evaluate the definitions on a concrete line.\<close>

lemmas eval_price = extractPrice_def parseFloat_def isDigit_def digitsToNat_def digitValue_def
lemmas eval_lower = toLowerCase_def toLowerChar_def
lemmas eval_line = lineStructures_cases pricedStructures_def emit_def

section \<open>Claims about the extractor\<close>

text \<open>
  Claim C8. The extraction pass is a total function: \<open>split_nl\<close>, \<open>str_includes\<close>,
  \<open>firstMatch\<close> and \<open>numberTail\<close> are structural recursions, the loop is a fold over
  the finitely many lines, and no statement of the source can throw on a string, so the
  model has no error value. Its result has at most six structures per line. A text in
  which no line matches any of the six rule categories yields the empty list.
\<close>

theorem no_keyword_no_structure:
  "length (extractStructuresFromAnalysis analysisText tf)
      \<le> 6 * length (split_nl (toLowerCase analysisText))
   \<and> (noRecognizedKeyword analysisText \<longrightarrow>
        extractStructuresFromAnalysis analysisText tf = [])"
proof
  have "length (concat (map lineStructures ls)) \<le> 6 * length ls" for ls
  proof (induction ls)
    case Nil
    show ?case by simp
  next
    case (Cons l ls)
    with lineStructures_length [of l] show ?case by simp
  qed
  then show "length (extractStructuresFromAnalysis analysisText tf)
      \<le> 6 * length (split_nl (toLowerCase analysisText))"
    by (simp add: extract_concat)
next
  show "noRecognizedKeyword analysisText \<longrightarrow>
        extractStructuresFromAnalysis analysisText tf = []"
    by (simp add: extract_concat noRecognizedKeyword_def list_all_iff unmatched_line)
qed

theorem no_keyword_no_structure_witness:
  "noRecognizedKeyword ''Price ranges near 4,500.\<newline>No clear setup yet''
   \<and> extractPrice ''price ranges near 4,500.'' = Some 4500
   \<and> extractStructuresFromAnalysis ''Price ranges near 4,500.\<newline>No clear setup yet'' ''4h'' = []"
proof -
  have l: "split_nl (toLowerCase ''Price ranges near 4,500.\<newline>No clear setup yet'') =
      [''price ranges near 4,500.'', ''no clear setup yet'']"
    by (simp add: eval_lower)
  have n: "noRecognizedKeyword ''Price ranges near 4,500.\<newline>No clear setup yet''"
    unfolding noRecognizedKeyword_def l by (simp add: matchesAnyRule_def ruleOrder_def)
  have p: "extractPrice ''price ranges near 4,500.'' = Some 4500"
    by (simp add: eval_price)
  from no_keyword_no_structure
    [of "''Price ranges near 4,500.\<newline>No clear setup yet''" "''4h''"] n p
  show ?thesis by simp
qed

text \<open>
  Claim C4, as stated: every emitted structure takes its direction from one rule over the
  line (\<open>uniformDirection\<close>). The source does not: a point-of-interest structure is
  always neutral, and a break-of-structure line ignores the word "above".
\<close>

theorem direction_uniform_counterexample:
  "lineStructures ''poi bullish at 100'' =
     [\<lparr>type = Poi, direction = Neutral, priceLevel = 100, confidence = 8 / 10,
       coordinates = zeroRect\<rparr>]
   \<and> uniformDirection ''poi bullish at 100'' = Bullish
   \<and> lineStructures ''bos above 100'' =
     [\<lparr>type = Bos, direction = Neutral, priceLevel = 100, confidence = 85 / 100,
       coordinates = zeroRect\<rparr>]
   \<and> uniformDirection ''bos above 100'' = Bullish"
proof -
  have p1: "extractPrice ''poi bullish at 100'' = Some 100"
    by (simp add: eval_price)
  have p2: "extractPrice ''bos above 100'' = Some 100"
    by (simp add: eval_price)
  have a: "lineStructures ''poi bullish at 100'' =
     [\<lparr>type = Poi, direction = Neutral, priceLevel = 100, confidence = 8 / 10,
       coordinates = zeroRect\<rparr>]"
    by (simp add: eval_line p1)
  have b: "lineStructures ''bos above 100'' =
     [\<lparr>type = Bos, direction = Neutral, priceLevel = 100, confidence = 85 / 100,
       coordinates = zeroRect\<rparr>]"
    by (simp add: eval_line p2)
  have c: "uniformDirection ''poi bullish at 100'' = Bullish"
    by (simp add: uniformDirection_def)
  have d: "uniformDirection ''bos above 100'' = Bullish"
    by (simp add: uniformDirection_def)
  from a b c d show ?thesis by simp
qed

text \<open>
  Claim C4, amended. The direction of an emitted structure is the one its own category
  derives from the line (\<open>categoryDirection\<close>): "bullish"/"bearish" for change of
  character and break of structure; "bullish" or "demand"/"bearish" or "supply" for an
  order block; "above"/"below" for liquidity; always neutral for a point of interest and
  for the 50 percent retracement.
\<close>

theorem direction_per_category:
  "\<forall>s \<in> set (lineStructures line). direction s = categoryDirection (type s) line"
proof (cases "extractPrice line")
  case None
  then show ?thesis by (simp add: lineStructures_cases)
next
  case (Some p)
  then show ?thesis by (simp add: lineStructures_cases priced_direction)
qed

theorem direction_per_category_witness:
  "map type (lineStructures ''bearish order block in supply, liquidity above 99.5'')
     = [Order_block, Liquidity]
   \<and> map direction (lineStructures ''bearish order block in supply, liquidity above 99.5'')
     = [Bearish, Bullish]
   \<and> map (\<lambda>s. categoryDirection (type s)
         ''bearish order block in supply, liquidity above 99.5'')
       (lineStructures ''bearish order block in supply, liquidity above 99.5'')
     = [Bearish, Bullish]"
proof -
  have p: "extractPrice ''bearish order block in supply, liquidity above 99.5'' = Some (995 / 10)"
    by (simp add: eval_price)
  have a: "lineStructures ''bearish order block in supply, liquidity above 99.5'' =
     [\<lparr>type = Order_block, direction = Bearish, priceLevel = 995 / 10, confidence = 75 / 100,
       coordinates = zeroRect\<rparr>,
      \<lparr>type = Liquidity, direction = Bullish, priceLevel = 995 / 10, confidence = 7 / 10,
       coordinates = zeroRect\<rparr>]"
    by (simp add: eval_line p)
  from direction_per_category [of "''bearish order block in supply, liquidity above 99.5''"]
  show ?thesis unfolding a by simp
qed

text \<open>
  Claim C6, as stated: a line with "bos", "bullish" and an extractable price yields one
  break-of-structure record. It fails when the first number of the line is 0: the price
  is extracted, and the guard \<^verbatim>\<open>if (price)\<close> drops it.
\<close>

theorem bos_zero_price_counterexample:
  "str_includes ''bullish bos, 0 pullbacks, target 4500'' ''bos''
   \<and> str_includes ''bullish bos, 0 pullbacks, target 4500'' ''bullish''
   \<and> extractPrice ''bullish bos, 0 pullbacks, target 4500'' = Some 0
   \<and> lineStructures ''bullish bos, 0 pullbacks, target 4500'' = []
   \<and> extractStructuresFromAnalysis ''Bullish BOS, 0 pullbacks, target 4500'' ''15m'' = []"
proof -
  have p: "extractPrice ''bullish bos, 0 pullbacks, target 4500'' = Some 0"
    by (simp add: eval_price)
  have l: "split_nl (toLowerCase ''Bullish BOS, 0 pullbacks, target 4500'') =
      [''bullish bos, 0 pullbacks, target 4500'']"
    by (simp add: eval_lower)
  have s: "lineStructures ''bullish bos, 0 pullbacks, target 4500'' = []"
    by (simp add: lineStructures_cases p)
  have k: "str_includes ''bullish bos, 0 pullbacks, target 4500'' ''bos''
      \<and> str_includes ''bullish bos, 0 pullbacks, target 4500'' ''bullish''"
    by simp
  from p s k show ?thesis by (simp only: extract_concat l) simp
qed

text \<open>
  Claim C6, amended. For a line of the text that holds "BOS" (in any letter case) and,
  once lower-cased, "bullish", and whose extracted price is not 0, the line contributes
  exactly one break-of-structure record, with direction bullish, the extracted price,
  confidence 0.85 and the zero rectangle; the record is part of the result for the whole
  text.
\<close>

theorem bos_bullish_line:
  assumes "rawLine \<in> set (split_nl analysisText)"
    and "str_includes rawLine ''BOS'' \<or> str_includes (toLowerCase rawLine) ''bos''"
    and "str_includes (toLowerCase rawLine) ''bullish''"
    and "extractPrice (toLowerCase rawLine) = Some p" and "p \<noteq> 0"
  shows "filter (\<lambda>s. type s = Bos) (lineStructures (toLowerCase rawLine)) =
      [\<lparr>type = Bos, direction = Bullish, priceLevel = p, confidence = 85 / 100,
        coordinates = zeroRect\<rparr>]
    \<and> \<lparr>type = Bos, direction = Bullish, priceLevel = p, confidence = 85 / 100,
        coordinates = zeroRect\<rparr> \<in> set (extractStructuresFromAnalysis analysisText tf)"
proof -
  let ?line = "toLowerCase rawLine"
  let ?b = "\<lparr>type = Bos, direction = Bullish, priceLevel = p, confidence = 85 / 100,
        coordinates = zeroRect\<rparr>"
  have k: "str_includes ?line ''bos''"
    using assms(2) upper_BOS by blast
  have f: "filter (\<lambda>s. type s = Bos) (lineStructures ?line) = [?b]"
    using k assms(3-5) by (simp add: lineStructures_cases priced_by_type ruleConfidence_def)
  then have "?b \<in> set (filter (\<lambda>s. type s = Bos) (lineStructures ?line))"
    by simp
  then have "?b \<in> set (lineStructures ?line)"
    by simp
  moreover have "?line \<in> set (split_nl (toLowerCase analysisText))"
    using assms(1) by (rule lowered_line)
  ultimately have "?b \<in> set (extractStructuresFromAnalysis analysisText tf)"
    unfolding extract_concat by auto
  with f show ?thesis by simp
qed

theorem bos_bullish_line_witness:
  "''BOS bullish above $1,234.50'' \<in> set (split_nl ''Trend up\<newline>BOS bullish above $1,234.50'')
   \<and> str_includes ''BOS bullish above $1,234.50'' ''BOS''
   \<and> toLowerCase ''BOS bullish above $1,234.50'' = ''bos bullish above $1,234.50''
   \<and> str_includes ''bos bullish above $1,234.50'' ''bullish''
   \<and> extractPrice ''bos bullish above $1,234.50'' = Some (123450 / 100)
   \<and> filter (\<lambda>s. type s = Bos) (lineStructures ''bos bullish above $1,234.50'') =
      [\<lparr>type = Bos, direction = Bullish, priceLevel = 123450 / 100, confidence = 85 / 100,
        coordinates = zeroRect\<rparr>]
   \<and> extractStructuresFromAnalysis ''Trend up\<newline>BOS bullish above $1,234.50'' ''15m'' =
      [\<lparr>type = Bos, direction = Bullish, priceLevel = 123450 / 100, confidence = 85 / 100,
        coordinates = zeroRect\<rparr>]"
proof -
  have m: "''BOS bullish above $1,234.50''
      \<in> set (split_nl ''Trend up\<newline>BOS bullish above $1,234.50'')"
    by simp
  have l: "toLowerCase ''BOS bullish above $1,234.50'' = ''bos bullish above $1,234.50''"
    by (simp add: eval_lower)
  have ls: "split_nl (toLowerCase ''Trend up\<newline>BOS bullish above $1,234.50'') =
      [''trend up'', ''bos bullish above $1,234.50'']"
    by (simp add: eval_lower)
  have k1: "str_includes ''BOS bullish above $1,234.50'' ''BOS''"
    by simp
  have k2: "str_includes ''bos bullish above $1,234.50'' ''bullish''"
    by simp
  have p: "extractPrice ''bos bullish above $1,234.50'' = Some (123450 / 100)"
    by (simp add: eval_price)
  have nz: "(123450 / 100 :: rat) \<noteq> 0"
    by simp
  have q: "extractPrice ''trend up'' = None"
    by (simp add: eval_price)
  have e: "extractStructuresFromAnalysis ''Trend up\<newline>BOS bullish above $1,234.50'' ''15m'' =
      [\<lparr>type = Bos, direction = Bullish, priceLevel = 123450 / 100, confidence = 85 / 100,
        coordinates = zeroRect\<rparr>]"
    unfolding extract_concat ls by (simp add: eval_line p q)
  have "filter (\<lambda>s. type s = Bos) (lineStructures ''bos bullish above $1,234.50'') =
      [\<lparr>type = Bos, direction = Bullish, priceLevel = 123450 / 100, confidence = 85 / 100,
        coordinates = zeroRect\<rparr>]"
    using bos_bullish_line
      [of "''BOS bullish above $1,234.50''" "''Trend up\<newline>BOS bullish above $1,234.50''"
        "123450 / 100" "''15m''"] m k1 k2 p nz
    unfolding l by blast
  with m l k1 k2 p e show ?thesis by blast
qed

text \<open>
  Claim C9, as stated: a line with an extractable price contributes one structure for each
  category it matches, two for a line that mentions "order block" and "liquidity". It
  fails when the first number of the line is 0: the line matches both and contributes
  nothing. And a line that mentions both and a third keyword contributes three.
\<close>

theorem two_categories_zero_price_counterexample:
  "str_includes ''order block under liquidity, 0 retests, 4500'' ''order block''
   \<and> str_includes ''order block under liquidity, 0 retests, 4500'' ''liquidity''
   \<and> extractPrice ''order block under liquidity, 0 retests, 4500'' = Some 0
   \<and> lineStructures ''order block under liquidity, 0 retests, 4500'' = []
   \<and> str_includes ''order block under liquidity near poi at 4500'' ''order block''
   \<and> str_includes ''order block under liquidity near poi at 4500'' ''liquidity''
   \<and> map type (lineStructures ''order block under liquidity near poi at 4500'')
       = [Order_block, Liquidity, Poi]"
proof -
  have p: "extractPrice ''order block under liquidity, 0 retests, 4500'' = Some 0"
    by (simp add: eval_price)
  have s: "lineStructures ''order block under liquidity, 0 retests, 4500'' = []"
    by (simp add: lineStructures_cases p)
  have k: "str_includes ''order block under liquidity, 0 retests, 4500'' ''order block''
   \<and> str_includes ''order block under liquidity, 0 retests, 4500'' ''liquidity''"
    by simp
  have q: "extractPrice ''order block under liquidity near poi at 4500'' = Some 4500"
    by (simp add: eval_price)
  have t: "map type (lineStructures ''order block under liquidity near poi at 4500'')
       = [Order_block, Liquidity, Poi]"
    by (simp add: eval_line q)
  have k': "str_includes ''order block under liquidity near poi at 4500'' ''order block''
   \<and> str_includes ''order block under liquidity near poi at 4500'' ''liquidity''"
    by simp
  from p s k q t k' show ?thesis by simp
qed

text \<open>
  Claim C9, amended. Any line contributes at most one structure of a category. A line
  whose extracted price is not 0 contributes exactly one structure for each category it
  matches and none for the others, in the order of the rules; so a line that matches
  "order block" and "liquidity" and nothing else yields exactly two structures.
\<close>

theorem one_structure_per_matched_category:
  "length (filter (\<lambda>s. type s = k) (lineStructures line)) \<le> 1
   \<and> (extractPrice line = Some p \<and> p \<noteq> 0 \<longrightarrow>
        map type (lineStructures line) = filter (\<lambda>k. matchesRule k line) ruleOrder
        \<and> length (filter (\<lambda>s. type s = k) (lineStructures line))
            = (if matchesRule k line then 1 else 0)
        \<and> (filter (\<lambda>k. matchesRule k line) ruleOrder = [Order_block, Liquidity] \<longrightarrow>
              length (lineStructures line) = 2))"
proof -
  have a: "length (filter (\<lambda>s. type s = k) (lineStructures line))
            = (if matchesRule k line then 1 else 0)"
    if "extractPrice line = Some p" and "p \<noteq> 0"
    using that by (simp add: lineStructures_cases priced_by_type)
  have b: "length (lineStructures line) = 2"
    if "extractPrice line = Some p" and "p \<noteq> 0"
      and m: "filter (\<lambda>k. matchesRule k line) ruleOrder = [Order_block, Liquidity]"
  proof -
    have "length (map type (lineStructures line)) = length [Order_block, Liquidity]"
      using one_for_each_matched [OF that(1,2)] m by simp
    then show ?thesis by simp
  qed
  from a b one_per_category [of k line] one_for_each_matched [of line p]
  show ?thesis by blast
qed

theorem one_structure_per_matched_category_witness:
  "extractPrice ''order block sits under liquidity at 101.25'' = Some (10125 / 100)
   \<and> str_includes ''order block sits under liquidity at 101.25'' ''order block''
   \<and> str_includes ''order block sits under liquidity at 101.25'' ''liquidity''
   \<and> filter (\<lambda>k. matchesRule k ''order block sits under liquidity at 101.25'') ruleOrder
       = [Order_block, Liquidity]
   \<and> map type (lineStructures ''order block sits under liquidity at 101.25'')
       = [Order_block, Liquidity]
   \<and> length (lineStructures ''order block sits under liquidity at 101.25'') = 2"
proof -
  have p: "extractPrice ''order block sits under liquidity at 101.25'' = Some (10125 / 100)"
    by (simp add: eval_price)
  have nz: "(10125 / 100 :: rat) \<noteq> 0"
    by simp
  have m: "filter (\<lambda>k. matchesRule k ''order block sits under liquidity at 101.25'') ruleOrder
       = [Order_block, Liquidity]"
    by (simp add: ruleOrder_def)
  have k: "str_includes ''order block sits under liquidity at 101.25'' ''order block''
   \<and> str_includes ''order block sits under liquidity at 101.25'' ''liquidity''"
    by simp
  from one_structure_per_matched_category
    [of Order_block "''order block sits under liquidity at 101.25''" "10125 / 100"] p nz
  have t: "map type (lineStructures ''order block sits under liquidity at 101.25'')
       = [Order_block, Liquidity]"
    unfolding m by simp
  then have "length (map type (lineStructures ''order block sits under liquidity at 101.25'')) = 2"
    by simp
  then have "length (lineStructures ''order block sits under liquidity at 101.25'') = 2"
    by simp
  with p m k t show ?thesis by simp
qed

text \<open>
  Claim C10. A line whose first numeric token parses to 0 contributes no structure,
  whatever keywords it holds: the guard \<^verbatim>\<open>if (price)\<close> treats the number 0 as it treats
  \<^verbatim>\<open>null\<close>. Neither does such a line change what the other lines of the text
  contribute.
\<close>

theorem zero_price_emits_nothing:
  "extractPrice line = Some 0 \<Longrightarrow> lineStructures line = [] \<and> processLine acc line = acc"
  by (simp add: lineStructures_def processLine_zero)

theorem zero_price_emits_nothing_witness:
  "extractPrice ''bos bullish at 0.00'' = Some 0
   \<and> (str_includes ''bos bullish at 0.00'' ''bos'')
   \<and> lineStructures ''bos bullish at 0.00'' = []
   \<and> extractStructuresFromAnalysis ''BOS bullish at 0.00'' ''1m'' = []"
proof -
  have p: "extractPrice ''bos bullish at 0.00'' = Some 0"
    by (simp add: extractPrice_def parseFloat_def isDigit_def digitsToNat_def digitValue_def)
  have l: "toLowerCase ''BOS bullish at 0.00'' = ''bos bullish at 0.00''"
    by (simp add: toLowerCase_def toLowerChar_def)
  have k: "str_includes ''bos bullish at 0.00'' ''bos''"
    by simp
  from zero_price_emits_nothing [OF p, of "[]"] p k l show ?thesis
    by (simp add: extractStructuresFromAnalysis_def)
qed

section \<open>Claims about the analyzer\<close>


text \<open>
  Claim C5. For every response text and every timeframe label, \<open>parseAnalysis\<close> returns
  the analysis with trend neutral, no structure and no key level, and the text unchanged
  in its field \<open>analysis\<close>; a successful \<open>analyzeChart\<close> returns exactly that, so the
  structured fields are the same for any two response texts.
\<close>

theorem parseAnalysis_constant_fields:
  "parseAnalysis content tf =
     \<lparr>timeframe = tf, structures = [], trendDirection = Neutral, keyLevels = [],
      analysis = content\<rparr>
   \<and> analyzeChart imageBase64 tf (Body (content # rest)) =
     Inr \<lparr>timeframe = tf, structures = [], trendDirection = Neutral, keyLevels = [],
      analysis = content\<rparr>
   \<and> structures (parseAnalysis content tf) = structures (parseAnalysis content' tf)
   \<and> trendDirection (parseAnalysis content tf) = trendDirection (parseAnalysis content' tf)
   \<and> keyLevels (parseAnalysis content tf) = keyLevels (parseAnalysis content' tf)"
  by (simp add: parseAnalysis_def analyzeChart_def)




section \<open>Claims about the alert system\<close>

lemma showAlert_state:
  "showAlert c granted signal st =
     st\<lparr>toasts :=
          (if closure_notificationsEnabled c
           then toasts st @ [\<lparr>toast_id = signal_id signal, toast_type = signal_type signal,
                   toast_price = entry_price signal,
                   toast_confidence = confidence_score signal\<rparr>]
           else toasts st),
        soundsPlayed := (if closure_soundEnabled c then soundsPlayed st + 1 else soundsPlayed st),
        systemNotifications :=
          (if granted then systemNotifications st @ [signal_id signal]
           else systemNotifications st),
        updateRequests := updateRequests st @ [signal_id signal]\<rparr>"
  by (simp add: showAlert_def playAlertSound_def Let_def)

lemma mount_closure:
  "renderOf initialAlerts =
     \<lparr>closure_soundEnabled = True, closure_notificationsEnabled = True\<rparr>"
  by (simp add: renderOf_def initialAlerts_def)

text \<open>
  Claim C3, as stated: of two invocations on the same signal, one alerts and the other
  does not. The handler subscribed at mount receives the same unsent record twice, the
  update of the first delivery being applied to the table in between: both deliveries
  alert. After the second there are two toasts, two sounds and two system notifications
  for the one signal.
\<close>

theorem double_delivery_counterexample:
  "alert_sent_column (applyUpdates (onSignalInsert (renderOf initialAlerts) True
       \<lparr>signal_id = ''s1'', signal_type = Buy, entry_price = 102, confidence_score = 8 / 10,
         alert_sent = False\<rparr> initialAlerts)) ''s1''
   \<and> toasts (onSignalInsert (renderOf initialAlerts) True
       \<lparr>signal_id = ''s1'', signal_type = Buy, entry_price = 102, confidence_score = 8 / 10,
         alert_sent = False\<rparr>
       (applyUpdates (onSignalInsert (renderOf initialAlerts) True
         \<lparr>signal_id = ''s1'', signal_type = Buy, entry_price = 102, confidence_score = 8 / 10,
           alert_sent = False\<rparr> initialAlerts)))
     = [\<lparr>toast_id = ''s1'', toast_type = Buy, toast_price = 102, toast_confidence = 8 / 10\<rparr>,
        \<lparr>toast_id = ''s1'', toast_type = Buy, toast_price = 102, toast_confidence = 8 / 10\<rparr>]
   \<and> soundsPlayed (onSignalInsert (renderOf initialAlerts) True
       \<lparr>signal_id = ''s1'', signal_type = Buy, entry_price = 102, confidence_score = 8 / 10,
         alert_sent = False\<rparr>
       (applyUpdates (onSignalInsert (renderOf initialAlerts) True
         \<lparr>signal_id = ''s1'', signal_type = Buy, entry_price = 102, confidence_score = 8 / 10,
           alert_sent = False\<rparr> initialAlerts))) = 2
   \<and> systemNotifications (onSignalInsert (renderOf initialAlerts) True
       \<lparr>signal_id = ''s1'', signal_type = Buy, entry_price = 102, confidence_score = 8 / 10,
         alert_sent = False\<rparr>
       (applyUpdates (onSignalInsert (renderOf initialAlerts) True
         \<lparr>signal_id = ''s1'', signal_type = Buy, entry_price = 102, confidence_score = 8 / 10,
           alert_sent = False\<rparr> initialAlerts))) = [''s1'', ''s1'']"
  by (simp add: onSignalInsert_def applyUpdates_def showAlert_state renderOf_def
      initialAlerts_def)

text \<open>
  Claim C3, amended. The handler calls \<open>showAlert\<close> exactly when the delivered record's
  own \<^verbatim>\<open>alert_sent\<close> field is false; a record delivered with the field true changes
  nothing. \<open>showAlert\<close> returns no value. With the switch values its closure holds, it
  appends one toast with the signal's id, type, entry price and confidence if
  notifications are on there, plays one sound if sound is on there, issues one system
  notification tagged with the signal's id if the permission is granted at the call, and
  always sends one update request for the signal's id; nothing else changes. Once the
  request is applied the row's \<^verbatim>\<open>alert_sent\<close> is true, and a flag that is true in the
  table stays true.
\<close>

theorem alert_handler_gate:
  "(alert_sent signal \<longrightarrow> onSignalInsert c granted signal st = st)
   \<and> (\<not> alert_sent signal \<longrightarrow>
        onSignalInsert c granted signal st =
          st\<lparr>toasts :=
               (if closure_notificationsEnabled c
                then toasts st @ [\<lparr>toast_id = signal_id signal, toast_type = signal_type signal,
                        toast_price = entry_price signal,
                        toast_confidence = confidence_score signal\<rparr>]
                else toasts st),
             soundsPlayed :=
               (if closure_soundEnabled c then soundsPlayed st + 1 else soundsPlayed st),
             systemNotifications :=
               (if granted then systemNotifications st @ [signal_id signal]
                else systemNotifications st),
             updateRequests := updateRequests st @ [signal_id signal]\<rparr>
        \<and> alert_sent_column (applyUpdates (onSignalInsert c granted signal st))
             (signal_id signal))
   \<and> (alert_sent_column st i \<longrightarrow>
        alert_sent_column (applyUpdates (onSignalInsert c granted signal st)) i)"
proof (intro conjI impI)
  assume "alert_sent signal"
  then show "onSignalInsert c granted signal st = st"
    by (simp add: onSignalInsert_def)
next
  assume "\<not> alert_sent signal"
  then show "onSignalInsert c granted signal st =
          st\<lparr>toasts :=
               (if closure_notificationsEnabled c
                then toasts st @ [\<lparr>toast_id = signal_id signal, toast_type = signal_type signal,
                        toast_price = entry_price signal,
                        toast_confidence = confidence_score signal\<rparr>]
                else toasts st),
             soundsPlayed :=
               (if closure_soundEnabled c then soundsPlayed st + 1 else soundsPlayed st),
             systemNotifications :=
               (if granted then systemNotifications st @ [signal_id signal]
                else systemNotifications st),
             updateRequests := updateRequests st @ [signal_id signal]\<rparr>"
    by (simp add: onSignalInsert_def showAlert_state)
next
  assume "\<not> alert_sent signal"
  then show "alert_sent_column (applyUpdates (onSignalInsert c granted signal st))
             (signal_id signal)"
    by (simp add: onSignalInsert_def showAlert_state applyUpdates_def)
next
  assume "alert_sent_column st i"
  then show "alert_sent_column (applyUpdates (onSignalInsert c granted signal st)) i"
    by (simp add: onSignalInsert_def showAlert_state applyUpdates_def)
qed

text \<open>The witness: the handler subscribed at mount, notifications switched off
  afterwards, no permission for system notifications, and row \<open>s2\<close> already alerted. A
  record delivered as sent changes nothing; a record delivered as unsent still gets its
  toast and its sound, and no system notification.\<close>

theorem alert_handler_gate_witness:
  "notificationsEnabled (toggleNotifications (renderOf initialAlerts)
       (initialAlerts\<lparr>alert_sent_column := (\<lambda>i. i = ''s2'')\<rparr>)) = False
   \<and> onSignalInsert (renderOf initialAlerts) False
       \<lparr>signal_id = ''s2'', signal_type = Sell, entry_price = 95, confidence_score = 9 / 10,
         alert_sent = True\<rparr>
       (toggleNotifications (renderOf initialAlerts)
         (initialAlerts\<lparr>alert_sent_column := (\<lambda>i. i = ''s2'')\<rparr>))
     = toggleNotifications (renderOf initialAlerts)
         (initialAlerts\<lparr>alert_sent_column := (\<lambda>i. i = ''s2'')\<rparr>)
   \<and> toasts (onSignalInsert (renderOf initialAlerts) False
       \<lparr>signal_id = ''s3'', signal_type = Sell, entry_price = 95, confidence_score = 9 / 10,
         alert_sent = False\<rparr>
       (toggleNotifications (renderOf initialAlerts)
         (initialAlerts\<lparr>alert_sent_column := (\<lambda>i. i = ''s2'')\<rparr>)))
     = [\<lparr>toast_id = ''s3'', toast_type = Sell, toast_price = 95, toast_confidence = 9 / 10\<rparr>]
   \<and> soundsPlayed (onSignalInsert (renderOf initialAlerts) False
       \<lparr>signal_id = ''s3'', signal_type = Sell, entry_price = 95, confidence_score = 9 / 10,
         alert_sent = False\<rparr>
       (toggleNotifications (renderOf initialAlerts)
         (initialAlerts\<lparr>alert_sent_column := (\<lambda>i. i = ''s2'')\<rparr>))) = 1
   \<and> systemNotifications (onSignalInsert (renderOf initialAlerts) False
       \<lparr>signal_id = ''s3'', signal_type = Sell, entry_price = 95, confidence_score = 9 / 10,
         alert_sent = False\<rparr>
       (toggleNotifications (renderOf initialAlerts)
         (initialAlerts\<lparr>alert_sent_column := (\<lambda>i. i = ''s2'')\<rparr>))) = []
   \<and> alert_sent_column (applyUpdates (onSignalInsert (renderOf initialAlerts) False
       \<lparr>signal_id = ''s3'', signal_type = Sell, entry_price = 95, confidence_score = 9 / 10,
         alert_sent = False\<rparr>
       (toggleNotifications (renderOf initialAlerts)
         (initialAlerts\<lparr>alert_sent_column := (\<lambda>i. i = ''s2'')\<rparr>)))) ''s3''
   \<and> alert_sent_column (applyUpdates (onSignalInsert (renderOf initialAlerts) False
       \<lparr>signal_id = ''s3'', signal_type = Sell, entry_price = 95, confidence_score = 9 / 10,
         alert_sent = False\<rparr>
       (toggleNotifications (renderOf initialAlerts)
         (initialAlerts\<lparr>alert_sent_column := (\<lambda>i. i = ''s2'')\<rparr>)))) ''s2''"
proof -
  let ?c = "renderOf initialAlerts"
  let ?sent = "\<lparr>signal_id = ''s2'', signal_type = Sell, entry_price = 95,
      confidence_score = 9 / 10, alert_sent = True\<rparr>"
  let ?unsent = "\<lparr>signal_id = ''s3'', signal_type = Sell, entry_price = 95,
      confidence_score = 9 / 10, alert_sent = False\<rparr>"
  let ?st = "toggleNotifications ?c (initialAlerts\<lparr>alert_sent_column := (\<lambda>i. i = ''s2'')\<rparr>)"
  have s: "alert_sent ?sent" and u: "\<not> alert_sent ?unsent"
    by simp_all
  have col: "alert_sent_column ?st ''s2''"
    by (simp add: toggleNotifications_def)
  have off: "notificationsEnabled ?st = False"
    by (simp add: toggleNotifications_def mount_closure)
  from alert_handler_gate [of ?sent ?c False ?st "''s2''"] s
  have e1: "onSignalInsert ?c False ?sent ?st = ?st"
    by blast
  from alert_handler_gate [of ?unsent ?c False ?st "''s2''"] u col
  have g: "onSignalInsert ?c False ?unsent ?st =
          ?st\<lparr>toasts :=
               (if closure_notificationsEnabled ?c
                then toasts ?st @ [\<lparr>toast_id = signal_id ?unsent,
                        toast_type = signal_type ?unsent,
                        toast_price = entry_price ?unsent,
                        toast_confidence = confidence_score ?unsent\<rparr>]
                else toasts ?st),
             soundsPlayed :=
               (if closure_soundEnabled ?c then soundsPlayed ?st + 1 else soundsPlayed ?st),
             systemNotifications :=
               (if False then systemNotifications ?st @ [signal_id ?unsent]
                else systemNotifications ?st),
             updateRequests := updateRequests ?st @ [signal_id ?unsent]\<rparr>"
    and e3: "alert_sent_column (applyUpdates (onSignalInsert ?c False ?unsent ?st))
        (signal_id ?unsent)"
    and e4: "alert_sent_column (applyUpdates (onSignalInsert ?c False ?unsent ?st)) ''s2''"
    by blast+
  have e2: "toasts (onSignalInsert ?c False ?unsent ?st)
      = [\<lparr>toast_id = ''s3'', toast_type = Sell, toast_price = 95, toast_confidence = 9 / 10\<rparr>]"
    unfolding g by (simp add: renderOf_def initialAlerts_def toggleNotifications_def)
  have e5: "soundsPlayed (onSignalInsert ?c False ?unsent ?st) = 1"
    unfolding g by (simp add: renderOf_def initialAlerts_def toggleNotifications_def)
  have e6: "systemNotifications (onSignalInsert ?c False ?unsent ?st) = []"
    unfolding g by (simp add: renderOf_def initialAlerts_def toggleNotifications_def)
  from e3 have e7: "alert_sent_column (applyUpdates (onSignalInsert ?c False ?unsent ?st)) ''s3''"
    by simp
  from off e1 e2 e5 e6 e7 e4 show ?thesis by blast
qed

section \<open>Claims about the aggregator\<close>

lemma toBundle_missing: "agg tf = None \<Longrightarrow> toBundle agg = Inl IncompleteBundle"
  by (cases tf) (simp_all add: toBundle_def split: option.splits)

lemma toBundle_complete:
  "isComplete agg \<Longrightarrow> \<exists>b. toBundle agg = Inr b"
  by (auto simp add: isComplete_def toBundle_def split: option.splits)

lemma isComplete_putAnalysis:
  assumes "\<forall>tf'. tf' \<noteq> tf \<longrightarrow> agg tf' \<noteq> None"
  shows "isComplete (putAnalysis agg tf a)"
  using assms by (cases tf) (simp_all add: isComplete_def putAnalysis_def)

text \<open>
  Claim C7. An aggregation that misses a required timeframe is not complete,
  \<open>toBundle\<close> fails on it with \<open>IncompleteBundle\<close>, and the cycle ends without a call of
  the decision engine, whatever the service would reply. When that timeframe is the only
  one missing and its analysis is supplied, the aggregation is complete, \<open>toBundle\<close>
  succeeds and the cycle reaches the engine.
\<close>

theorem incomplete_bundle_refused:
  assumes "agg tf = None"
  shows "\<not> isComplete agg
    \<and> toBundle agg = Inl IncompleteBundle
    \<and> evaluateCycle agg trainingRules response = NotEvaluated IncompleteBundle
    \<and> ((\<forall>tf'. tf' \<noteq> tf \<longrightarrow> agg tf' \<noteq> None) \<longrightarrow>
         isComplete (putAnalysis agg tf a) \<and> (\<exists>b. toBundle (putAnalysis agg tf a) = Inr b)
         \<and> evaluateCycle (putAnalysis agg tf a) trainingRules response
             \<noteq> NotEvaluated IncompleteBundle)"
proof -
  have m: "toBundle agg = Inl IncompleteBundle"
    using assms by (rule toBundle_missing)
  have n: "\<not> isComplete agg"
    using assms by (cases tf) (simp_all add: isComplete_def)
  have e: "evaluateCycle agg trainingRules response = NotEvaluated IncompleteBundle"
    by (simp add: evaluateCycle_def m)
  have r: "isComplete (putAnalysis agg tf a) \<and> (\<exists>b. toBundle (putAnalysis agg tf a) = Inr b)
         \<and> evaluateCycle (putAnalysis agg tf a) trainingRules response
             \<noteq> NotEvaluated IncompleteBundle"
    if h: "\<forall>tf'. tf' \<noteq> tf \<longrightarrow> agg tf' \<noteq> None"
  proof -
    have c: "isComplete (putAnalysis agg tf a)"
      using h by (rule isComplete_putAnalysis)
    then obtain b where b: "toBundle (putAnalysis agg tf a) = Inr b"
      using toBundle_complete by blast
    then have "evaluateCycle (putAnalysis agg tf a) trainingRules response
        \<noteq> NotEvaluated IncompleteBundle"
      by (simp add: evaluateCycle_def)
    with c b show ?thesis by blast
  qed
  from m n e r show ?thesis by blast
qed

theorem incomplete_bundle_refused_witness:
  "putAnalysis (putAnalysis (putAnalysis emptyAggregation TF_4h (parseAnalysis ''a'' ''4h''))
       TF_15m (parseAnalysis ''b'' ''15m'')) TF_3m (parseAnalysis ''c'' ''3m'') TF_1m = None
   \<and> toBundle (putAnalysis (putAnalysis (putAnalysis emptyAggregation
       TF_4h (parseAnalysis ''a'' ''4h'')) TF_15m (parseAnalysis ''b'' ''15m''))
       TF_3m (parseAnalysis ''c'' ''3m'')) = Inl IncompleteBundle
   \<and> evaluateCycle (putAnalysis (putAnalysis (putAnalysis emptyAggregation
       TF_4h (parseAnalysis ''a'' ''4h'')) TF_15m (parseAnalysis ''b'' ''15m''))
       TF_3m (parseAnalysis ''c'' ''3m'')) [] (Body [''BUY''])
       = NotEvaluated IncompleteBundle
   \<and> toBundle (putAnalysis (putAnalysis (putAnalysis (putAnalysis emptyAggregation
       TF_4h (parseAnalysis ''a'' ''4h'')) TF_15m (parseAnalysis ''b'' ''15m''))
       TF_3m (parseAnalysis ''c'' ''3m'')) TF_1m (parseAnalysis ''d'' ''1m''))
       = Inr \<lparr>bundle_4h = parseAnalysis ''a'' ''4h'', bundle_15m = parseAnalysis ''b'' ''15m'',
            bundle_3m = parseAnalysis ''c'' ''3m'', bundle_1m = parseAnalysis ''d'' ''1m''\<rparr>
   \<and> evaluateCycle (putAnalysis (putAnalysis (putAnalysis (putAnalysis emptyAggregation
       TF_4h (parseAnalysis ''a'' ''4h'')) TF_15m (parseAnalysis ''b'' ''15m''))
       TF_3m (parseAnalysis ''c'' ''3m'')) TF_1m (parseAnalysis ''d'' ''1m'')) [] (Body [''BUY''])
       \<noteq> NotEvaluated IncompleteBundle"
proof -
  let ?agg = "putAnalysis (putAnalysis (putAnalysis emptyAggregation
       TF_4h (parseAnalysis ''a'' ''4h'')) TF_15m (parseAnalysis ''b'' ''15m''))
       TF_3m (parseAnalysis ''c'' ''3m'')"
  have missing: "?agg TF_1m = None"
    by (simp add: putAnalysis_def emptyAggregation_def)
  have others: "\<forall>tf'. tf' \<noteq> TF_1m \<longrightarrow> ?agg tf' \<noteq> None"
  proof (intro allI impI)
    fix tf'
    assume "tf' \<noteq> TF_1m"
    then show "?agg tf' \<noteq> None"
      by (cases tf') (simp_all add: putAnalysis_def emptyAggregation_def)
  qed
  have b: "toBundle (putAnalysis ?agg TF_1m (parseAnalysis ''d'' ''1m''))
       = Inr \<lparr>bundle_4h = parseAnalysis ''a'' ''4h'', bundle_15m = parseAnalysis ''b'' ''15m'',
            bundle_3m = parseAnalysis ''c'' ''3m'', bundle_1m = parseAnalysis ''d'' ''1m''\<rparr>"
    by (simp add: toBundle_def putAnalysis_def emptyAggregation_def)
  from incomplete_bundle_refused
    [of ?agg TF_1m "[]" "Body [''BUY'']" "parseAnalysis ''d'' ''1m''"] others missing b
  show ?thesis by blast
qed

end
